theory Spec2Isabelle
  imports Main "HOL-Library.List_Lexorder" "HOL-Library.Char_ord"
begin

section \<open>Data model of main.go\<close>

text \<open>
  Go strings are byte sequences and \<open><\<close> on them is the bytewise lexicographic order, a
  proper prefix being smaller. Here a string is a \<open>char list\<close>, characters are ordered by
  their byte value and lists lexicographically, which is the same order.
\<close>

text \<open>The struct \<open>Timings\<close> (lines 26-36): nine clock times as the service sends them.\<close>

record Timings =
  Fajr :: string
  Sunrise :: string
  Dhuhr :: string
  Asr :: string
  Sunset :: string
  Maghrib :: string
  Isha :: string
  Imsak :: string
  Midnight :: string

text \<open>The zero value \<open>Timings{}\<close>, which \<open>getPrayerTimes\<close> returns beside an error.\<close>

definition zeroTimings :: Timings where
  "zeroTimings =
     \<lparr>Fajr = [], Sunrise = [], Dhuhr = [], Asr = [], Sunset = [], Maghrib = [],
      Isha = [], Imsak = [], Midnight = []\<rparr>"

text \<open>The anonymous struct of the slice \<open>prayers\<close> (lines 72-75).\<close>

record prayer =
  Name :: string
  Time :: string

text \<open>A run-time panic of the Go program: the only candidate is an index out of range.\<close>

datatype panic = IndexOutOfRange

text \<open>
  What the program does to the outside, in the order it does it: a write to standard output,
  a line of the logger (its timestamp prefix and final newline left out), a call of
  \<open>showNotification\<close> with its title and message, a call of \<open>time.Sleep\<close> (in seconds), and a
  call of \<open>printTable\<close> with its header and rows.
\<close>

datatype effect =
    Print string
  | LogLine string
  | Notify string string
  | Sleep nat
  | Table "string list" "string list list"

datatype proc_status = Running | Exited int | Panicked panic

text \<open>
  What the outside gives to the program: the outcome of the k-th call of \<open>getPrayerTimes\<close>
  (the error's text, or the timings), the k-th reading of the clock formatted as \<open>15:04\<close>,
  whether the k-th \<open>note.Push()\<close> succeeds, and the k-th command, that is the k-th line of
  standard input after \<open>strings.TrimSpace\<close>.
\<close>

record env =
  fetches :: "nat \<Rightarrow> string + Timings"
  clock :: "nat \<Rightarrow> string"
  pushes :: "nat \<Rightarrow> bool"
  commands :: "nat \<Rightarrow> string"

text \<open>The state of one task: how much of each input it has used, and what it has done.\<close>

record pstate =
  nfetch :: nat
  nclock :: nat
  npush :: nat
  ncommand :: nat
  out :: "effect list"
  status :: proc_status

section \<open>The operations\<close>

definition emit :: "effect \<Rightarrow> pstate \<Rightarrow> pstate" where
  "emit e s = s\<lparr>out := out s @ [e]\<rparr>"

text \<open>\<open>getPrayerTimes\<close> (lines 48-67): the request and its decoding are the outside's.\<close>

definition getPrayerTimes :: "env \<Rightarrow> pstate \<Rightarrow> (string + Timings) \<times> pstate" where
  "getPrayerTimes e s = (fetches e (nfetch s), s\<lparr>nfetch := Suc (nfetch s)\<rparr>)"

text \<open>\<open>time.Now().Format("15:04")\<close>.\<close>

definition timeNow :: "env \<Rightarrow> pstate \<Rightarrow> string \<times> pstate" where
  "timeNow e s = (clock e (nclock s), s\<lparr>nclock := Suc (nclock s)\<rparr>)"

text \<open>\<open>reader.ReadString\<close> followed by \<open>strings.TrimSpace\<close> (lines 148-149).\<close>

definition readCommand :: "env \<Rightarrow> pstate \<Rightarrow> string \<times> pstate" where
  "readCommand e s = (commands e (ncommand s), s\<lparr>ncommand := Suc (ncommand s)\<rparr>)"

text \<open>\<open>showNotification\<close> (lines 94-129): push the notification, log when the push fails.\<close>

definition showNotification :: "string \<Rightarrow> string \<Rightarrow> env \<Rightarrow> pstate \<Rightarrow> pstate" where
  "showNotification title message e s =
     (let s1 = emit (Notify title message) (s\<lparr>npush := Suc (npush s)\<rparr>)
      in if pushes e (npush s) then s1 else emit (LogLine ''Uh oh!'') s1)"

subsection \<open>The selector\<close>

text \<open>The slice literal of lines 72-82.\<close>

definition prayersOf :: "Timings \<Rightarrow> prayer list" where
  "prayersOf timings =
     [\<lparr>Name = ''Fajr'', Time = Fajr timings\<rparr>,
      \<lparr>Name = ''Sunrise'', Time = Sunrise timings\<rparr>,
      \<lparr>Name = ''Dhuhr'', Time = Dhuhr timings\<rparr>,
      \<lparr>Name = ''Asr'', Time = Asr timings\<rparr>,
      \<lparr>Name = ''Maghrib'', Time = Maghrib timings\<rparr>,
      \<lparr>Name = ''Isha'', Time = Isha timings\<rparr>]"

text \<open>The \<open>range\<close> loop of lines 84-88; \<open>None\<close> when it falls through.\<close>

fun scanPrayers :: "string \<Rightarrow> prayer list \<Rightarrow> prayer option" where
  "scanPrayers currentTime [] = None"
| "scanPrayers currentTime (p # rest) =
     (if currentTime < Time p then Some p else scanPrayers currentTime rest)"

text \<open>Indexing a slice, with Go's bounds check.\<close>

definition index :: "'a list \<Rightarrow> nat \<Rightarrow> panic + 'a" where
  "index xs i = (if i < length xs then Inr (xs ! i) else Inl IndexOutOfRange)"

text \<open>Lines 72-91 of \<open>getNextPrayerTime\<close>, after the clock has been read.\<close>

definition getNextPrayerTime_at :: "string \<Rightarrow> Timings \<Rightarrow> panic + (string \<times> string)" where
  "getNextPrayerTime_at currentTime timings =
     (let prayers = prayersOf timings in
      case scanPrayers currentTime prayers of
        Some p \<Rightarrow> Inr (Name p, Time p)
      | None \<Rightarrow>
          (case index prayers 0 of
             Inl err \<Rightarrow> Inl err
           | Inr p0 \<Rightarrow> Inr (Name p0, Fajr timings)))"

text \<open>\<open>getNextPrayerTime\<close> (lines 69-92): read the clock, then select.\<close>

definition getNextPrayerTime ::
    "Timings \<Rightarrow> env \<Rightarrow> pstate \<Rightarrow> (panic + (string \<times> string)) \<times> pstate" where
  "getNextPrayerTime timings e s =
     (let (currentTime, s1) = timeNow e s
      in (getNextPrayerTime_at currentTime timings, s1))"

subsection \<open>The poll loop\<close>

definition fetchFailed :: "string \<Rightarrow> effect" where
  "fetchFailed err = LogLine (''Failed to fetch prayer times: '' @ err)"

definition nextPrayerLine :: "string \<Rightarrow> string \<Rightarrow> effect" where
  "nextPrayerLine nextPrayer nextTime =
     Print (''Next prayer: '' @ nextPrayer @ '', Time: '' @ nextTime @ [CHR 0x0A])"

text \<open>One pass through the body of the \<open>for\<close> loop of \<open>checkPrayerTimes\<close> (lines 191-207).\<close>

definition checkPrayerTimes_body :: "env \<Rightarrow> pstate \<Rightarrow> pstate" where
  "checkPrayerTimes_body e s =
     (let (r, s1) = getPrayerTimes e s in
      case r of
        Inl err \<Rightarrow> emit (Sleep 60) (emit (fetchFailed err) s1)
      | Inr timings \<Rightarrow>
          (let (sel, s2) = getNextPrayerTime timings e s1 in
           case sel of
             Inl p \<Rightarrow> s2\<lparr>status := Panicked p\<rparr>
           | Inr (nextPrayer, nextTime) \<Rightarrow>
               (let s3 = emit (nextPrayerLine nextPrayer nextTime) s2;
                    (currentTime, s4) = timeNow e s3;
                    s5 = (if currentTime = nextTime
                          then showNotification ''Prayer Time''
                                 (''It's time for '' @ nextPrayer @ '' prayer.'') e s4
                          else s4)
                in emit (Sleep 60) s5)))"

text \<open>
  The loop itself has no exit, so the deferred \<open>wg.Done()\<close> is never reached: \<open>n\<close> bounds
  how many passes are observed, and a pass is made whenever the process is still running.
\<close>

fun checkPrayerTimes :: "nat \<Rightarrow> env \<Rightarrow> pstate \<Rightarrow> pstate" where
  "checkPrayerTimes 0 e s = s"
| "checkPrayerTimes (Suc n) e s =
     (if status s = Running then checkPrayerTimes n e (checkPrayerTimes_body e s) else s)"

subsection \<open>The command loop\<close>

definition prompt :: effect where
  "prompt = Print ''Enter a command (or 'q' to quit): ''"

definition allTable :: "Timings \<Rightarrow> effect" where
  "allTable timings =
     Table [''Prayer'', ''Time'']
       [[''Fajr'', Fajr timings],
        [''Sunrise'', Sunrise timings],
        [''Dhuhr'', Dhuhr timings],
        [''Asr'', Asr timings],
        [''Maghrib'', Maghrib timings],
        [''Isha'', Isha timings]]"

text \<open>One pass through the body of the \<open>for\<close> loop of \<open>handleUserInput\<close> (lines 147-183).\<close>

definition handleUserInput_body :: "env \<Rightarrow> pstate \<Rightarrow> pstate" where
  "handleUserInput_body e s =
     (let s1 = emit prompt s;
          (command, s2) = readCommand e s1 in
      if command = ''next'' then
        (let (r, s3) = getPrayerTimes e s2 in
         case r of
           Inl err \<Rightarrow> emit (fetchFailed err) s3
         | Inr timings \<Rightarrow>
             (let (sel, s4) = getNextPrayerTime timings e s3 in
              case sel of
                Inl p \<Rightarrow> s4\<lparr>status := Panicked p\<rparr>
              | Inr (nextPrayer, nextTime) \<Rightarrow> emit (nextPrayerLine nextPrayer nextTime) s4))
      else if command = ''all'' then
        (let (r, s3) = getPrayerTimes e s2 in
         case r of
           Inl err \<Rightarrow> emit (fetchFailed err) s3
         | Inr timings \<Rightarrow> emit (allTable timings) s3)
      else if command = ''q'' then s2\<lparr>status := Exited 0\<rparr>
      else emit (Print (''Invalid command'' @ [CHR 0x0A])) s2)"

fun handleUserInput :: "nat \<Rightarrow> env \<Rightarrow> pstate \<Rightarrow> pstate" where
  "handleUserInput 0 e s = s"
| "handleUserInput (Suc n) e s =
     (if status s = Running then handleUserInput n e (handleUserInput_body e s) else s)"

subsection \<open>The start of main\<close>

text \<open>Lines 212-220 of \<open>main\<close>, up to the start of the two tasks.\<close>

definition main_startup :: "env \<Rightarrow> pstate \<Rightarrow> pstate" where
  "main_startup e s =
     (let s1 = showNotification ''Adhan'' ''Adhan app is active!'' e s;
          s2 = emit (Sleep 3) s1;
          (r, s3) = getPrayerTimes e s2;
          (timings, s4) =
            (case r of
               Inl err \<Rightarrow> (zeroTimings, emit (Sleep 60) (emit (fetchFailed err) s3))
             | Inr t \<Rightarrow> (t, s3));
          (sel, s5) = getNextPrayerTime timings e s4
      in case sel of
           Inl p \<Rightarrow> s5\<lparr>status := Panicked p\<rparr>
         | Inr (nx, tim) \<Rightarrow>
             showNotification ''Adhan'' (''Next Prayer is : '' @ nx @ '' at: '' @ tim) e s5)"

section \<open>Observations\<close>

text \<open>The calls of the alert sink in a trace, in order, each with its title and message.\<close>

fun alerts :: "effect list \<Rightarrow> (string \<times> string) list" where
  "alerts [] = []"
| "alerts (Notify title message # es) = (title, message) # alerts es"
| "alerts (x # es) = alerts es"

text \<open>The six times of a schedule are strictly increasing in day order.\<close>

definition strictlyIncreasing :: "Timings \<Rightarrow> bool" where
  "strictlyIncreasing t \<longleftrightarrow>
     Fajr t < Sunrise t \<and> Sunrise t < Dhuhr t \<and> Dhuhr t < Asr t \<and>
     Asr t < Maghrib t \<and> Maghrib t < Isha t"

text \<open>The schedule of the specification's end-to-end example.\<close>

definition exampleTimings :: Timings where
  "exampleTimings =
     \<lparr>Fajr = ''05:30'', Sunrise = ''06:45'', Dhuhr = ''12:15'', Asr = ''15:40'',
      Sunset = ''18:20'', Maghrib = ''18:20'', Isha = ''19:45'', Imsak = ''05:20'',
      Midnight = ''00:10''\<rparr>"

text \<open>
  Two schedules that are not strictly increasing: one where Fajr and Sunrise carry the same
  time, and one where Isha falls after midnight and so reads smaller than Maghrib.
\<close>

definition tiedTimings :: Timings where
  "tiedTimings =
     \<lparr>Fajr = ''05:30'', Sunrise = ''05:30'', Dhuhr = ''12:15'', Asr = ''15:40'',
      Sunset = ''18:20'', Maghrib = ''18:20'', Isha = ''19:45'', Imsak = ''05:20'',
      Midnight = ''00:10''\<rparr>"

definition lateIshaTimings :: Timings where
  "lateIshaTimings =
     \<lparr>Fajr = ''02:40'', Sunrise = ''04:45'', Dhuhr = ''13:05'', Asr = ''17:25'',
      Sunset = ''21:20'', Maghrib = ''21:20'', Isha = ''00:05'', Imsak = ''02:30'',
      Midnight = ''01:00''\<rparr>"

text \<open>
  Scripted surroundings for concrete runs: the fetch outcomes, clock readings and commands
  are taken from lists, with a fixed answer once a list is used up; every push succeeds.
\<close>

definition nthOr :: "'a \<Rightarrow> 'a list \<Rightarrow> nat \<Rightarrow> 'a" where
  "nthOr d xs k = (if k < length xs then xs ! k else d)"

definition scriptedEnv :: "(string + Timings) list \<Rightarrow> string list \<Rightarrow> string list \<Rightarrow> env" where
  "scriptedEnv fs cl cmds =
     \<lparr>fetches = nthOr (Inl ''connection refused'') fs,
      clock = nthOr ''23:59'' cl,
      pushes = (\<lambda>k. True),
      commands = nthOr ''q'' cmds\<rparr>"

definition initial :: pstate where
  "initial = \<lparr>nfetch = 0, nclock = 0, npush = 0, ncommand = 0, out = [], status = Running\<rparr>"

section \<open>Facts about the selector\<close>

lemma length_prayersOf: "length (prayersOf t) = 6"
  by (simp add: prayersOf_def)

lemma scanPrayers_None_iff: "scanPrayers now ps = None \<longleftrightarrow> (\<forall>p \<in> set ps. \<not> now < Time p)"
  by (induction ps) auto

lemma scanPrayers_first:
  "i < length ps \<Longrightarrow> now < Time (ps ! i) \<Longrightarrow> (\<forall>j<i. \<not> now < Time (ps ! j)) \<Longrightarrow>
     scanPrayers now ps = Some (ps ! i)"
proof (induction ps arbitrary: i)
  case Nil
  then show ?case by simp
next
  case (Cons p ps)
  show ?case
  proof (cases i)
    case 0
    with Cons.prems show ?thesis by simp
  next
    case (Suc k)
    with Cons.prems have "\<not> now < Time p" by auto
    moreover have "scanPrayers now ps = Some (ps ! k)"
    proof (rule Cons.IH)
      show "k < length ps" using Cons.prems Suc by simp
      show "now < Time (ps ! k)" using Cons.prems Suc by simp
      show "\<forall>j<k. \<not> now < Time (ps ! j)"
      proof (intro allI impI)
        fix j assume "j < k"
        then have "Suc j < i" using Suc by simp
        with Cons.prems(3) have "\<not> now < Time ((p # ps) ! Suc j)" by blast
        then show "\<not> now < Time (ps ! j)" by simp
      qed
    qed
    ultimately show ?thesis using Suc by simp
  qed
qed

lemma scanPrayers_Some_later: "scanPrayers now ps = Some p \<Longrightarrow> p \<in> set ps \<and> now < Time p"
  by (induction ps) (auto split: if_splits)

text \<open>The bounds check of \<open>prayers[0]\<close> never fails: the slice always has six elements.\<close>

lemma getNextPrayerTime_at_scan:
  "getNextPrayerTime_at now t =
     (case scanPrayers now (prayersOf t) of
        Some p \<Rightarrow> Inr (Name p, Time p)
      | None \<Rightarrow> Inr (''Fajr'', Fajr t))"
  by (simp add: getNextPrayerTime_at_def Let_def index_def prayersOf_def split: option.splits)

lemma selector_in_prayers: "\<exists>p \<in> set (prayersOf t). getNextPrayerTime_at now t = Inr (Name p, Time p)"
proof (cases "scanPrayers now (prayersOf t)")
  case None
  then have "getNextPrayerTime_at now t = Inr (''Fajr'', Fajr t)"
    by (simp add: getNextPrayerTime_at_scan)
  then show ?thesis by (simp add: prayersOf_def)
next
  case (Some p)
  then have "p \<in> set (prayersOf t)" by (simp add: scanPrayers_Some_later)
  moreover have "getNextPrayerTime_at now t = Inr (Name p, Time p)"
    using Some by (simp add: getNextPrayerTime_at_scan)
  ultimately show ?thesis by blast
qed

lemma selector_returns: "\<exists>name time. getNextPrayerTime_at now t = Inr (name, time)"
  using selector_in_prayers [of t now] by blast

lemma selector_zero: "getNextPrayerTime_at now zeroTimings = Inr (''Fajr'', [])"
  by (simp add: getNextPrayerTime_at_scan prayersOf_def zeroTimings_def)

lemma getNextPrayerTime_eq:
  "getNextPrayerTime t e s =
     (getNextPrayerTime_at (clock e (nclock s)) t, s\<lparr>nclock := Suc (nclock s)\<rparr>)"
  by (simp add: getNextPrayerTime_def timeNow_def)

section \<open>Facts about the traces\<close>

lemma alerts_append: "alerts (xs @ ys) = alerts xs @ alerts ys"
  by (induction xs rule: alerts.induct) simp_all

lemma alerts_showNotification:
  "alerts (out (showNotification title message e s)) = alerts (out s) @ [(title, message)]"
  by (simp add: showNotification_def emit_def Let_def alerts_append)

lemma alerts_emit_other:
  "alerts (out (emit (Sleep d) s)) = alerts (out s)"
  "alerts (out (emit (nextPrayerLine n tm) s)) = alerts (out s)"
  "alerts (out (emit (fetchFailed err) s)) = alerts (out s)"
  by (simp_all add: emit_def alerts_append nextPrayerLine_def fetchFailed_def)

lemma showNotification_frame:
  "status (showNotification title message e s) = status s"
  "nfetch (showNotification title message e s) = nfetch s"
  "nclock (showNotification title message e s) = nclock s"
  by (simp_all add: showNotification_def emit_def Let_def)

subsection \<open>One pass of the poll loop\<close>

lemma body_fetch_failed:
  "fetches e (nfetch s) = Inl err \<Longrightarrow>
     checkPrayerTimes_body e s =
       s\<lparr>nfetch := Suc (nfetch s), out := out s @ [fetchFailed err, Sleep 60]\<rparr>"
  by (simp add: checkPrayerTimes_body_def getPrayerTimes_def emit_def)

lemma body_selects:
  assumes "fetches e (nfetch s) = Inr t"
    and "getNextPrayerTime_at (clock e (nclock s)) t = Inr (name, tm)"
  shows "\<exists>rest. out (checkPrayerTimes_body e s) = out s @ [nextPrayerLine name tm] @ rest"
  using assms
  by (simp add: checkPrayerTimes_body_def getPrayerTimes_def getNextPrayerTime_eq
      timeNow_def Let_def emit_def showNotification_def)

lemma alerts_body_ok:
  assumes "fetches e (nfetch s) = Inr t"
    and "getNextPrayerTime_at (clock e (nclock s)) t = Inr (name, tm)"
  shows "alerts (out (checkPrayerTimes_body e s)) =
           alerts (out s) @
             (if clock e (Suc (nclock s)) = tm
              then [(''Prayer Time'', ''It's time for '' @ name @ '' prayer.'')] else [])"
  using assms
  by (simp add: checkPrayerTimes_body_def getPrayerTimes_def getNextPrayerTime_eq
      timeNow_def Let_def alerts_emit_other alerts_showNotification)
     (simp add: emit_def)

lemma body_frame:
  "status (checkPrayerTimes_body e s) = status s \<and>
   nfetch (checkPrayerTimes_body e s) = Suc (nfetch s)"
proof (cases "fetches e (nfetch s)")
  case (Inl err)
  then show ?thesis by (simp add: body_fetch_failed)
next
  case (Inr t)
  obtain name tm where "getNextPrayerTime_at (clock e (nclock s)) t = Inr (name, tm)"
    using selector_returns by blast
  with Inr show ?thesis
    by (simp add: checkPrayerTimes_body_def getPrayerTimes_def getNextPrayerTime_eq
        timeNow_def Let_def emit_def showNotification_frame)
qed

lemma selected_time_off_now:
  assumes inc: "strictlyIncreasing t"
    and sel: "getNextPrayerTime_at now t = Inr (name, tm)"
  shows "case scanPrayers now (prayersOf t) of Some p \<Rightarrow> now < tm | None \<Rightarrow> tm < now"
proof (cases "scanPrayers now (prayersOf t)")
  case None
  then have "\<forall>p \<in> set (prayersOf t). \<not> now < Time p"
    by (simp only: scanPrayers_None_iff)
  then have "\<not> now < Sunrise t"
    by (simp add: prayersOf_def)
  moreover have "Fajr t < Sunrise t" using inc by (simp add: strictlyIncreasing_def)
  ultimately have "Fajr t < now" by simp
  moreover have "tm = Fajr t" using sel None by (simp add: getNextPrayerTime_at_scan)
  ultimately show ?thesis using None by simp
next
  case (Some p)
  then have "now < Time p" by (simp add: scanPrayers_Some_later)
  moreover have "tm = Time p" using sel Some by (simp add: getNextPrayerTime_at_scan)
  ultimately show ?thesis using Some by simp
qed

lemma strict_chain:
  assumes "strictlyIncreasing t"
  shows "Fajr t < Sunrise t" "Fajr t < Dhuhr t" "Fajr t < Asr t" "Fajr t < Maghrib t" "Fajr t < Isha t"
    "Sunrise t < Dhuhr t" "Sunrise t < Asr t" "Sunrise t < Maghrib t" "Sunrise t < Isha t"
    "Dhuhr t < Asr t" "Dhuhr t < Maghrib t" "Dhuhr t < Isha t"
    "Asr t < Maghrib t" "Asr t < Isha t" "Maghrib t < Isha t"
  using assms unfolding strictlyIncreasing_def by auto

subsection \<open>Several passes of the poll loop\<close>

lemma loop_never_stops:
  "status s = Running \<Longrightarrow>
     status (checkPrayerTimes n e s) = Running \<and> nfetch (checkPrayerTimes n e s) = nfetch s + n"
proof (induction n arbitrary: s)
  case 0
  then show ?case by simp
next
  case (Suc n)
  have "status (checkPrayerTimes_body e s) = Running"
    using Suc.prems by (simp add: body_frame)
  from Suc.IH [OF this] show ?case
    using Suc.prems by (simp add: body_frame)
qed

lemma loop_all_failures:
  "status s = Running \<Longrightarrow> (\<forall>k<n. fetches e (nfetch s + k) = Inl (errs k)) \<Longrightarrow>
     out (checkPrayerTimes n e s) =
       out s @ concat (map (\<lambda>k. [fetchFailed (errs k), Sleep 60]) [0..<n]) \<and>
     nclock (checkPrayerTimes n e s) = nclock s \<and>
     npush (checkPrayerTimes n e s) = npush s"
proof (induction n arbitrary: s errs)
  case 0
  then show ?case by simp
next
  case (Suc n)
  let ?s' = "checkPrayerTimes_body e s"
  have f0: "fetches e (nfetch s) = Inl (errs 0)"
    using Suc.prems(2) by (metis add.right_neutral zero_less_Suc)
  then have s': "?s' = s\<lparr>nfetch := Suc (nfetch s), out := out s @ [fetchFailed (errs 0), Sleep 60]\<rparr>"
    by (rule body_fetch_failed)
  have run: "status ?s' = Running" using Suc.prems(1) by (simp add: s')
  have rest: "\<forall>k<n. fetches e (nfetch ?s' + k) = Inl (errs (Suc k))"
  proof (intro allI impI)
    fix k assume "k < n"
    then have "fetches e (nfetch s + Suc k) = Inl (errs (Suc k))"
      using Suc.prems(2) [rule_format, of "Suc k"] by simp
    then show "fetches e (nfetch ?s' + k) = Inl (errs (Suc k))"
      by (simp add: s')
  qed
  have split: "concat (map (\<lambda>k. [fetchFailed (errs k), Sleep 60]) [0..<Suc n]) =
      [fetchFailed (errs 0), Sleep 60] @
      concat (map (\<lambda>k. [fetchFailed (errs (Suc k)), Sleep 60]) [0..<n])"
    by (simp only: upt_conv_Cons [OF zero_less_Suc] map_Suc_upt [symmetric] list.map concat.simps
        map_map o_def)
  from Suc.IH [OF run rest] show ?case
    using Suc.prems(1) by (simp only: checkPrayerTimes.simps if_True split) (simp add: s')
qed

lemma loop_fail_then_ok:
  assumes "status s = Running"
    and "fetches e (nfetch s) = Inl err"
    and "fetches e (Suc (nfetch s)) = Inr t"
    and "getNextPrayerTime_at (clock e (nclock s)) t = Inr (name, tm)"
  shows "\<exists>rest. out (checkPrayerTimes 2 e s) =
           out s @ [fetchFailed err, Sleep 60, nextPrayerLine name tm] @ rest"
proof -
  let ?s' = "checkPrayerTimes_body e s"
  have s': "?s' = s\<lparr>nfetch := Suc (nfetch s), out := out s @ [fetchFailed err, Sleep 60]\<rparr>"
    using assms(2) by (rule body_fetch_failed)
  have two: "checkPrayerTimes 2 e s = checkPrayerTimes_body e ?s'"
    using assms(1) by (simp add: numeral_2_eq_2 s')
  have "fetches e (nfetch ?s') = Inr t"
    and "getNextPrayerTime_at (clock e (nclock ?s')) t = Inr (name, tm)"
    using assms(3,4) by (simp_all add: s')
  then have "\<exists>rest. out (checkPrayerTimes_body e ?s') = out ?s' @ [nextPrayerLine name tm] @ rest"
    by (rule body_selects)
  then obtain rest where
    "out (checkPrayerTimes_body e ?s') = out ?s' @ [nextPrayerLine name tm] @ rest" ..
  then have "out (checkPrayerTimes 2 e s) =
      out s @ [fetchFailed err, Sleep 60, nextPrayerLine name tm] @ rest"
    by (simp only: two) (simp add: s')
  then show ?thesis ..
qed

subsection \<open>The start of main\<close>

lemma main_startup_fetch_failed:
  assumes "fetches e (nfetch s) = Inl err"
  shows "alerts (out (main_startup e s)) =
           alerts (out s) @ [(''Adhan'', ''Adhan app is active!''), (''Adhan'', ''Next Prayer is : Fajr at: '')]"
  using assms
  by (simp add: main_startup_def showNotification_def emit_def getPrayerTimes_def
      getNextPrayerTime_def timeNow_def selector_zero Let_def alerts_append fetchFailed_def)

subsection \<open>The command loop\<close>

lemma input_next_ok:
  assumes "commands e (ncommand s) = ''next''"
    and "fetches e (nfetch s) = Inr t"
    and "getNextPrayerTime_at (clock e (nclock s)) t = Inr (name, tm)"
  shows "out (handleUserInput_body e s) = out s @ [prompt, nextPrayerLine name tm] \<and>
         status (handleUserInput_body e s) = status s"
  using assms
  by (simp add: handleUserInput_body_def readCommand_def getPrayerTimes_def
      getNextPrayerTime_eq emit_def Let_def)

lemma input_all_ok:
  assumes "commands e (ncommand s) = ''all''"
    and "fetches e (nfetch s) = Inr t"
  shows "out (handleUserInput_body e s) = out s @ [prompt, allTable t] \<and>
         status (handleUserInput_body e s) = status s"
  using assms
  by (simp add: handleUserInput_body_def readCommand_def getPrayerTimes_def emit_def Let_def)

lemma input_fetch_failed:
  assumes "commands e (ncommand s) = ''next'' \<or> commands e (ncommand s) = ''all''"
    and "fetches e (nfetch s) = Inl err"
  shows "out (handleUserInput_body e s) = out s @ [prompt, fetchFailed err] \<and>
         status (handleUserInput_body e s) = status s"
  using assms
  by (auto simp: handleUserInput_body_def readCommand_def getPrayerTimes_def emit_def Let_def)

lemma input_q:
  assumes "commands e (ncommand s) = ''q''"
  shows "out (handleUserInput_body e s) = out s @ [prompt] \<and>
         status (handleUserInput_body e s) = Exited 0 \<and>
         nfetch (handleUserInput_body e s) = nfetch s"
  using assms
  by (simp add: handleUserInput_body_def readCommand_def emit_def Let_def)

lemma input_other:
  assumes "commands e (ncommand s) \<notin> {''next'', ''all'', ''q''}"
  shows "out (handleUserInput_body e s) = out s @ [prompt, Print (''Invalid command'' @ [CHR 0x0A])] \<and>
         status (handleUserInput_body e s) = status s \<and>
         nfetch (handleUserInput_body e s) = nfetch s"
  using assms
  by (simp add: handleUserInput_body_def readCommand_def emit_def Let_def)

lemma input_stopped: "status s \<noteq> Running \<Longrightarrow> handleUserInput n e s = s"
  by (cases n) simp_all

lemma input_prompts_first:
  "\<exists>rest. out (handleUserInput_body e s) = out s @ prompt # rest"
proof (cases "fetches e (nfetch s)")
  case (Inl err)
  then show ?thesis
    by (simp add: handleUserInput_body_def readCommand_def getPrayerTimes_def emit_def Let_def)
next
  case (Inr t)
  obtain name tm where "getNextPrayerTime_at (clock e (nclock s)) t = Inr (name, tm)"
    using selector_returns by blast
  with Inr show ?thesis
    by (simp add: handleUserInput_body_def readCommand_def getPrayerTimes_def
        getNextPrayerTime_eq emit_def Let_def)
qed

lemma input_continues:
  assumes "status s = Running" and "status (handleUserInput_body e s) = Running"
  shows "\<exists>rest. out (handleUserInput (Suc (Suc n)) e s) =
           out (handleUserInput_body e s) @ prompt # rest"
proof -
  let ?s' = "handleUserInput_body e s"
  obtain r where r: "out (handleUserInput_body e ?s') = out ?s' @ prompt # r"
    using input_prompts_first by blast
  have more: "\<exists>rest. out (handleUserInput n e s0) = out s0 @ rest" for s0
  proof (induction n arbitrary: s0)
    case 0
    then show ?case by simp
  next
    case (Suc n)
    show ?case
    proof (cases "status s0 = Running")
      case True
      obtain r1 where "out (handleUserInput_body e s0) = out s0 @ prompt # r1"
        using input_prompts_first by blast
      moreover obtain r2 where
        "out (handleUserInput n e (handleUserInput_body e s0)) = out (handleUserInput_body e s0) @ r2"
        using Suc.IH by blast
      ultimately show ?thesis using True by simp
    next
      case False
      then show ?thesis by simp
    qed
  qed
  obtain r' where "out (handleUserInput n e (handleUserInput_body e ?s')) =
      out (handleUserInput_body e ?s') @ r'"
    using more by blast
  then show ?thesis using assms r by simp
qed

subsection \<open>The scripted surroundings\<close>

lemma nthOr_simps [simp]:
  "nthOr d [] k = d"
  "nthOr d (x # xs) 0 = x"
  "nthOr d (x # xs) (Suc k) = nthOr d xs k"
  by (simp_all add: nthOr_def)

lemma scriptedEnv_sel [simp]:
  "fetches (scriptedEnv fs cl cmds) = nthOr (Inl ''connection refused'') fs"
  "clock (scriptedEnv fs cl cmds) = nthOr ''23:59'' cl"
  "pushes (scriptedEnv fs cl cmds) = (\<lambda>k. True)"
  "commands (scriptedEnv fs cl cmds) = nthOr ''q'' cmds"
  by (simp_all add: scriptedEnv_def)

lemma initial_sel [simp]:
  "nfetch initial = 0" "nclock initial = 0" "npush initial = 0" "ncommand initial = 0"
  "out initial = []" "status initial = Running"
  by (simp_all add: initial_def)

lemma strictlyIncreasing_example: "strictlyIncreasing exampleTimings"
  by (simp add: strictlyIncreasing_def exampleTimings_def)

section \<open>The claims\<close>

text \<open>
  C1. The slice scanned by the selector holds the six events Fajr, Sunrise, Dhuhr, Asr,
  Maghrib, Isha in this order, each with its own field of the schedule. For every schedule
  and every current time, an event whose time is strictly greater than the current time,
  while no earlier event's is, is the one the selector returns; in particular the selector
  returns Fajr when the current time is strictly less than every event's time.
\<close>

theorem selector_first_strictly_later:
  "map Name (prayersOf t) = [''Fajr'', ''Sunrise'', ''Dhuhr'', ''Asr'', ''Maghrib'', ''Isha''] \<and>
   map Time (prayersOf t) = [Fajr t, Sunrise t, Dhuhr t, Asr t, Maghrib t, Isha t] \<and>
   (\<forall>i<6. now < Time (prayersOf t ! i) \<longrightarrow> (\<forall>j<i. \<not> now < Time (prayersOf t ! j)) \<longrightarrow>
      getNextPrayerTime_at now t = Inr (Name (prayersOf t ! i), Time (prayersOf t ! i))) \<and>
   ((\<forall>p \<in> set (prayersOf t). now < Time p) \<longrightarrow>
      getNextPrayerTime_at now t = Inr (''Fajr'', Fajr t))"
proof (intro conjI allI impI)
  show "map Name (prayersOf t) = [''Fajr'', ''Sunrise'', ''Dhuhr'', ''Asr'', ''Maghrib'', ''Isha'']"
    by (simp add: prayersOf_def)
  show "map Time (prayersOf t) = [Fajr t, Sunrise t, Dhuhr t, Asr t, Maghrib t, Isha t]"
    by (simp add: prayersOf_def)
next
  fix i :: nat
  assume "i < 6" and "now < Time (prayersOf t ! i)" and "\<forall>j<i. \<not> now < Time (prayersOf t ! j)"
  then have "scanPrayers now (prayersOf t) = Some (prayersOf t ! i)"
    by (intro scanPrayers_first) (simp_all add: length_prayersOf)
  then show "getNextPrayerTime_at now t = Inr (Name (prayersOf t ! i), Time (prayersOf t ! i))"
    by (simp add: getNextPrayerTime_at_scan)
next
  assume "\<forall>p \<in> set (prayersOf t). now < Time p"
  then have "now < Fajr t" by (simp add: prayersOf_def)
  then show "getNextPrayerTime_at now t = Inr (''Fajr'', Fajr t)"
    by (simp add: getNextPrayerTime_at_scan prayersOf_def)
qed

text \<open>
  On the example schedule: at 07:00 Dhuhr (index 2) is the first event strictly later, and
  at 04:00 every event is strictly later.
\<close>

theorem selector_first_strictly_later_witness:
  "(2::nat) < 6 \<and>
   ''07:00'' < Time (prayersOf exampleTimings ! 2) \<and>
   \<not> ''07:00'' < Time (prayersOf exampleTimings ! 0) \<and>
   \<not> ''07:00'' < Time (prayersOf exampleTimings ! 1) \<and>
   getNextPrayerTime_at ''07:00'' exampleTimings = Inr (''Dhuhr'', ''12:15'') \<and>
   ''04:00'' < Fajr exampleTimings \<and>
   getNextPrayerTime_at ''04:00'' exampleTimings = Inr (''Fajr'', ''05:30'')"
proof -
  have a: "(2::nat) < 6" by simp
  have b: "''07:00'' < Time (prayersOf exampleTimings ! 2)"
    by (simp add: prayersOf_def exampleTimings_def)
  have c: "\<forall>j<2. \<not> ''07:00'' < Time (prayersOf exampleTimings ! j)"
    by (simp add: prayersOf_def exampleTimings_def less_Suc_eq numeral_2_eq_2)
  have d: "\<forall>p \<in> set (prayersOf exampleTimings). ''04:00'' < Time p"
    by (simp add: prayersOf_def exampleTimings_def)
  have "getNextPrayerTime_at ''07:00'' exampleTimings =
          Inr (Name (prayersOf exampleTimings ! 2), Time (prayersOf exampleTimings ! 2))"
    using selector_first_strictly_later [of exampleTimings "''07:00''"] a b c by blast
  moreover have "getNextPrayerTime_at ''04:00'' exampleTimings = Inr (''Fajr'', Fajr exampleTimings)"
    using selector_first_strictly_later [of exampleTimings "''04:00''"] d by blast
  ultimately show ?thesis
    by (simp add: prayersOf_def exampleTimings_def)
qed

text \<open>
  C2, as the specification states it, for every schedule: if the current time equals the
  time of event i, the selector returns event i+1 (event 0 after the last). This fails on
  schedules whose times are not strictly increasing. With Fajr and Sunrise both at 05:30
  and the current time 05:30, the time of event 0, the selector skips Sunrise and returns
  Dhuhr. With Isha at 00:05, after midnight, and the current time 21:20, the time of Maghrib
  (event 4), the selector returns Fajr and not Isha.
\<close>

theorem selector_at_event_time_counterexample:
  "Time (prayersOf tiedTimings ! 0) = ''05:30'' \<and>
   getNextPrayerTime_at ''05:30'' tiedTimings = Inr (''Dhuhr'', ''12:15'') \<and>
   getNextPrayerTime_at ''05:30'' tiedTimings \<noteq>
     Inr (Name (prayersOf tiedTimings ! 1), Time (prayersOf tiedTimings ! 1)) \<and>
   Time (prayersOf lateIshaTimings ! 4) = ''21:20'' \<and>
   getNextPrayerTime_at ''21:20'' lateIshaTimings = Inr (''Fajr'', ''02:40'') \<and>
   getNextPrayerTime_at ''21:20'' lateIshaTimings \<noteq>
     Inr (Name (prayersOf lateIshaTimings ! 5), Time (prayersOf lateIshaTimings ! 5))"
  by (simp add: getNextPrayerTime_at_scan prayersOf_def tiedTimings_def lateIshaTimings_def)

text \<open>
  C2, amended. For every schedule whose six times are strictly increasing and every index
  i, if the current time equals the time of event i, the selector returns event i+1, or
  event 0 when i is the last index; the time it returns differs from the current time.
\<close>

theorem selector_at_event_time:
  assumes inc: "strictlyIncreasing t" and i: "i < 6" and now: "now = Time (prayersOf t ! i)"
  shows "getNextPrayerTime_at now t =
           Inr (Name (prayersOf t ! ((i + 1) mod 6)), Time (prayersOf t ! ((i + 1) mod 6))) \<and>
         Time (prayersOf t ! ((i + 1) mod 6)) \<noteq> now"
proof -
  note ch = strict_chain [OF inc]
  from i consider "i = 0" | "i = 1" | "i = 2" | "i = 3" | "i = 4" | "i = 5"
    by linarith
  then show ?thesis
  proof cases
    case 1
    then have "now = Fajr t" using now by (simp add: prayersOf_def)
    with ch 1 show ?thesis
      by (simp add: getNextPrayerTime_at_scan prayersOf_def not_less_iff_gr_or_eq)
  next
    case 2
    then have "now = Sunrise t" using now by (simp add: prayersOf_def)
    with ch 2 show ?thesis
      by (simp add: getNextPrayerTime_at_scan prayersOf_def not_less_iff_gr_or_eq numeral_2_eq_2)
  next
    case 3
    then have "now = Dhuhr t" using now by (simp add: prayersOf_def)
    with ch 3 show ?thesis
      by (simp add: getNextPrayerTime_at_scan prayersOf_def not_less_iff_gr_or_eq)
  next
    case 4
    then have "now = Asr t" using now by (simp add: prayersOf_def)
    with ch 4 show ?thesis
      by (simp add: getNextPrayerTime_at_scan prayersOf_def not_less_iff_gr_or_eq)
  next
    case 5
    then have "now = Maghrib t" using now by (simp add: prayersOf_def)
    with ch 5 show ?thesis
      by (simp add: getNextPrayerTime_at_scan prayersOf_def not_less_iff_gr_or_eq)
  next
    case 6
    then have "now = Isha t" using now by (simp add: prayersOf_def)
    with ch 6 show ?thesis
      by (auto simp: getNextPrayerTime_at_scan prayersOf_def not_less_iff_gr_or_eq)
  qed
qed

text \<open>
  On the example schedule: at 18:20, the time of Maghrib, the selector returns Isha, and at
  19:45, the time of Isha, it returns Fajr.
\<close>

theorem selector_at_event_time_witness:
  "strictlyIncreasing exampleTimings \<and>
   Time (prayersOf exampleTimings ! 4) = ''18:20'' \<and>
   getNextPrayerTime_at ''18:20'' exampleTimings = Inr (''Isha'', ''19:45'') \<and>
   Time (prayersOf exampleTimings ! 5) = ''19:45'' \<and>
   getNextPrayerTime_at ''19:45'' exampleTimings = Inr (''Fajr'', ''05:30'')"
proof -
  have a: "(4::nat) < 6" and b: "(5::nat) < 6" by simp_all
  have t4: "''18:20'' = Time (prayersOf exampleTimings ! 4)"
    and t5: "''19:45'' = Time (prayersOf exampleTimings ! 5)"
    by (simp_all add: prayersOf_def exampleTimings_def)
  show ?thesis
    using selector_at_event_time [OF strictlyIncreasing_example a t4]
      selector_at_event_time [OF strictlyIncreasing_example b t5] strictlyIncreasing_example
    by (simp add: prayersOf_def exampleTimings_def)
qed

text \<open>
  C3. For every schedule, when the current time is greater than or equal to every event's
  time, the selector returns the first event's name, Fajr, with the first event's time, which
  is the schedule's own Fajr time.
\<close>

theorem selector_wraps_to_Fajr:
  "(\<forall>p \<in> set (prayersOf t). Time p \<le> now) \<Longrightarrow>
     getNextPrayerTime_at now t = Inr (Name (prayersOf t ! 0), Time (prayersOf t ! 0)) \<and>
     Name (prayersOf t ! 0) = ''Fajr'' \<and> Time (prayersOf t ! 0) = Fajr t"
proof -
  assume all: "\<forall>p \<in> set (prayersOf t). Time p \<le> now"
  then have "\<forall>p \<in> set (prayersOf t). \<not> now < Time p"
    by (auto simp: not_less)
  then have "scanPrayers now (prayersOf t) = None"
    by (simp only: scanPrayers_None_iff)
  then have "getNextPrayerTime_at now t = Inr (''Fajr'', Fajr t)"
    by (simp add: getNextPrayerTime_at_scan)
  then show ?thesis
    by (simp add: prayersOf_def)
qed

text \<open>
  On the example schedule at 19:45, the time of Isha itself, no event is later.
\<close>

theorem selector_wraps_to_Fajr_witness:
  "Isha exampleTimings \<le> ''19:45'' \<and>
   getNextPrayerTime_at ''19:45'' exampleTimings = Inr (''Fajr'', ''05:30'')"
proof -
  have "\<forall>p \<in> set (prayersOf exampleTimings). Time p \<le> ''19:45''"
    by (simp add: prayersOf_def exampleTimings_def)
  from selector_wraps_to_Fajr [OF this] show ?thesis
    by (simp add: prayersOf_def exampleTimings_def)
qed

text \<open>
  C4. In a pass of the poll loop whose fetch succeeds, the alert sink is called exactly
  when the second reading of the clock, taken after the selection, equals the selected
  time; the call then has the title "Prayer Time" and the message "It's time for <name>
  prayer." with the selected name, and it is the only call. When the two differ, and when
  the fetch fails, the pass calls the alert sink not at all.
\<close>

theorem alert_iff_exact_match:
  "(\<forall>t name tm.
      fetches e (nfetch s) = Inr t \<longrightarrow>
      getNextPrayerTime_at (clock e (nclock s)) t = Inr (name, tm) \<longrightarrow>
        alerts (out (checkPrayerTimes_body e s)) =
          alerts (out s) @
            (if clock e (Suc (nclock s)) = tm
             then [(''Prayer Time'', ''It's time for '' @ name @ '' prayer.'')] else [])) \<and>
   (\<forall>err. fetches e (nfetch s) = Inl err \<longrightarrow>
      alerts (out (checkPrayerTimes_body e s)) = alerts (out s))"
proof (intro conjI allI impI)
  fix t name tm
  assume "fetches e (nfetch s) = Inr t"
    and "getNextPrayerTime_at (clock e (nclock s)) t = Inr (name, tm)"
  then show "alerts (out (checkPrayerTimes_body e s)) =
          alerts (out s) @
            (if clock e (Suc (nclock s)) = tm
             then [(''Prayer Time'', ''It's time for '' @ name @ '' prayer.'')] else [])"
    by (rule alerts_body_ok)
next
  fix err assume "fetches e (nfetch s) = Inl err"
  then show "alerts (out (checkPrayerTimes_body e s)) = alerts (out s)"
    by (simp add: body_fetch_failed alerts_append fetchFailed_def)
qed

text \<open>
  Three passes on the example schedule: selection at 12:14 and check at 12:15 alerts for
  Dhuhr; selection and check both at 12:14 do not alert; a failed fetch does not alert.
\<close>

theorem alert_iff_exact_match_witness:
  "alerts (out (checkPrayerTimes_body
             (scriptedEnv [Inr exampleTimings] [''12:14'', ''12:15''] []) initial)) =
     [(''Prayer Time'', ''It's time for Dhuhr prayer.'')] \<and>
   alerts (out (checkPrayerTimes_body
             (scriptedEnv [Inr exampleTimings] [''12:14'', ''12:14''] []) initial)) = [] \<and>
   alerts (out (checkPrayerTimes_body (scriptedEnv [] [] []) initial)) = []"
proof -
  let ?e1 = "scriptedEnv [Inr exampleTimings] [''12:14'', ''12:15''] []"
  let ?e2 = "scriptedEnv [Inr exampleTimings] [''12:14'', ''12:14''] []"
  let ?e3 = "scriptedEnv [] [] []"
  have sel: "getNextPrayerTime_at ''12:14'' exampleTimings = Inr (''Dhuhr'', ''12:15'')"
    by (simp add: getNextPrayerTime_at_scan prayersOf_def exampleTimings_def)
  have f1: "fetches ?e1 (nfetch initial) = Inr exampleTimings"
    and s1: "getNextPrayerTime_at (clock ?e1 (nclock initial)) exampleTimings = Inr (''Dhuhr'', ''12:15'')"
    using sel by simp_all
  have f2: "fetches ?e2 (nfetch initial) = Inr exampleTimings"
    and s2: "getNextPrayerTime_at (clock ?e2 (nclock initial)) exampleTimings = Inr (''Dhuhr'', ''12:15'')"
    using sel by simp_all
  have f3: "fetches ?e3 (nfetch initial) = Inl ''connection refused''" by simp
  have "alerts (out (checkPrayerTimes_body ?e1 initial)) =
          [(''Prayer Time'', ''It's time for Dhuhr prayer.'')]"
    using alert_iff_exact_match [of ?e1 initial, THEN conjunct1, rule_format, OF f1 s1] by simp
  moreover have "alerts (out (checkPrayerTimes_body ?e2 initial)) = []"
    using alert_iff_exact_match [of ?e2 initial, THEN conjunct1, rule_format, OF f2 s2] by simp
  moreover have "alerts (out (checkPrayerTimes_body ?e3 initial)) = []"
    using alert_iff_exact_match [of ?e3 initial, THEN conjunct2, rule_format, OF f3] by simp
  ultimately show ?thesis by simp
qed

text \<open>
  C5. On the schedule Fajr 05:30, Sunrise 06:45, Dhuhr 12:15, Asr 15:40, Maghrib 18:20,
  Isha 19:45 the selector returns Dhuhr at 12:15 when it is 07:00, Fajr at 05:30 when it is
  20:00, and Isha at 19:45 when it is 18:20, although 18:20 is the time of Maghrib.
\<close>

theorem selector_example:
  "getNextPrayerTime_at ''07:00'' exampleTimings = Inr (''Dhuhr'', ''12:15'') \<and>
   getNextPrayerTime_at ''20:00'' exampleTimings = Inr (''Fajr'', ''05:30'') \<and>
   getNextPrayerTime_at ''18:20'' exampleTimings = Inr (''Isha'', ''19:45'') \<and>
   Maghrib exampleTimings = ''18:20''"
  by (simp add: getNextPrayerTime_at_def prayersOf_def exampleTimings_def index_def)

text \<open>
  C6. From a running state, if the next n fetches all fail, then n passes of the poll loop
  do nothing but log each failure, as the line "Failed to fetch prayer times: " followed by
  the error, and sleep 60 seconds after it, for every n: the delay is the same each time and
  no pass gives up. Whatever the fetches return, after n passes the process is still running
  and has fetched exactly n times. When a fetch fails and the next one succeeds, the second
  pass prints "Next prayer: <name>, Time: <time>" for the selection made on the fetched
  schedule.
\<close>

theorem fetch_failure_retried_forever:
  assumes "status s = Running"
  shows "((\<forall>k<n. fetches e (nfetch s + k) = Inl (errs k)) \<longrightarrow>
            out (checkPrayerTimes n e s) =
              out s @
              concat (map (\<lambda>k. [LogLine (''Failed to fetch prayer times: '' @ errs k), Sleep 60])
                        [0..<n]) \<and>
            nclock (checkPrayerTimes n e s) = nclock s \<and>
            npush (checkPrayerTimes n e s) = npush s) \<and>
         status (checkPrayerTimes n e s) = Running \<and>
         nfetch (checkPrayerTimes n e s) = nfetch s + n \<and>
         (\<forall>err t name tm.
            fetches e (nfetch s) = Inl err \<longrightarrow>
            fetches e (Suc (nfetch s)) = Inr t \<longrightarrow>
            getNextPrayerTime_at (clock e (nclock s)) t = Inr (name, tm) \<longrightarrow>
              (\<exists>rest. out (checkPrayerTimes 2 e s) =
                 out s @
                 [LogLine (''Failed to fetch prayer times: '' @ err), Sleep 60,
                  Print (''Next prayer: '' @ name @ '', Time: '' @ tm @ [CHR 0x0A])] @ rest))"
proof -
  have a: "(\<forall>k<n. fetches e (nfetch s + k) = Inl (errs k)) \<longrightarrow>
            out (checkPrayerTimes n e s) =
              out s @
              concat (map (\<lambda>k. [LogLine (''Failed to fetch prayer times: '' @ errs k), Sleep 60])
                        [0..<n]) \<and>
            nclock (checkPrayerTimes n e s) = nclock s \<and>
            npush (checkPrayerTimes n e s) = npush s"
    using assms loop_all_failures [of s n e errs] unfolding fetchFailed_def by blast
  have b: "status (checkPrayerTimes n e s) = Running \<and>
         nfetch (checkPrayerTimes n e s) = nfetch s + n"
    using assms by (rule loop_never_stops)
  have c: "\<exists>rest. out (checkPrayerTimes 2 e s) =
                 out s @
                 [LogLine (''Failed to fetch prayer times: '' @ err), Sleep 60,
                  Print (''Next prayer: '' @ name @ '', Time: '' @ tm @ [CHR 0x0A])] @ rest"
    if "fetches e (nfetch s) = Inl err" "fetches e (Suc (nfetch s)) = Inr t"
      "getNextPrayerTime_at (clock e (nclock s)) t = Inr (name, tm)" for err t name tm
    using loop_fail_then_ok [OF assms that] unfolding fetchFailed_def nextPrayerLine_def .
  from a b c show ?thesis by blast
qed

text \<open>
  Three failed fetches in a row give three log lines, each followed by a sleep of 60
  seconds; a failure followed by the example schedule at 07:00 leads to the selection of
  Dhuhr.
\<close>

theorem fetch_failure_retried_forever_witness:
  "out (checkPrayerTimes 3 (scriptedEnv [] [] []) initial) =
     [LogLine ''Failed to fetch prayer times: connection refused'', Sleep 60,
      LogLine ''Failed to fetch prayer times: connection refused'', Sleep 60,
      LogLine ''Failed to fetch prayer times: connection refused'', Sleep 60] \<and>
   status (checkPrayerTimes 3 (scriptedEnv [] [] []) initial) = Running \<and>
   nfetch (checkPrayerTimes 3 (scriptedEnv [] [] []) initial) = 3 \<and>
   (\<exists>rest. out (checkPrayerTimes 2
                 (scriptedEnv [Inl ''timeout'', Inr exampleTimings] [''07:00'', ''07:00''] [])
                 initial) =
      [LogLine ''Failed to fetch prayer times: timeout'', Sleep 60,
       Print (''Next prayer: Dhuhr, Time: 12:15'' @ [CHR 0x0A])] @ rest)"
proof -
  let ?e = "scriptedEnv [] [] []"
  let ?e' = "scriptedEnv [Inl ''timeout'', Inr exampleTimings] [''07:00'', ''07:00''] []"
  have run: "status initial = Running" by simp
  have fails: "\<forall>k<3. fetches ?e (nfetch initial + k) = Inl ((\<lambda>k. ''connection refused'') k)"
    by simp
  have a: "fetches ?e' (nfetch initial) = Inl ''timeout''"
    and b: "fetches ?e' (Suc (nfetch initial)) = Inr exampleTimings"
    and c: "getNextPrayerTime_at (clock ?e' (nclock initial)) exampleTimings = Inr (''Dhuhr'', ''12:15'')"
    by (simp_all add: getNextPrayerTime_at_scan prayersOf_def exampleTimings_def)
  have up: "[0..<3] = [0, 1, 2]" by (simp add: upt_rec)
  have "out (checkPrayerTimes 3 ?e initial) =
          out initial @
          concat (map (\<lambda>k. [LogLine (''Failed to fetch prayer times: '' @ ''connection refused''),
                             Sleep 60]) [0..<3])"
    using fetch_failure_retried_forever [OF run, of 3 ?e "\<lambda>k. ''connection refused''"] fails
    by blast
  then have one: "out (checkPrayerTimes 3 ?e initial) =
     [LogLine ''Failed to fetch prayer times: connection refused'', Sleep 60,
      LogLine ''Failed to fetch prayer times: connection refused'', Sleep 60,
      LogLine ''Failed to fetch prayer times: connection refused'', Sleep 60]"
    by (simp add: up)
  have two: "status (checkPrayerTimes 3 ?e initial) = Running \<and>
      nfetch (checkPrayerTimes 3 ?e initial) = 3"
    using fetch_failure_retried_forever [OF run, of 3 ?e "\<lambda>k. ''connection refused''"]
    by simp
  have "\<exists>rest. out (checkPrayerTimes 2 ?e' initial) =
      out initial @
      [LogLine (''Failed to fetch prayer times: '' @ ''timeout''), Sleep 60,
       Print (''Next prayer: '' @ ''Dhuhr'' @ '', Time: '' @ ''12:15'' @ [CHR 0x0A])] @ rest"
    using fetch_failure_retried_forever [OF run, of 0 ?e' "\<lambda>k. []"] a b c by blast
  then have three: "\<exists>rest. out (checkPrayerTimes 2 ?e' initial) =
      [LogLine ''Failed to fetch prayer times: timeout'', Sleep 60,
       Print (''Next prayer: Dhuhr, Time: 12:15'' @ [CHR 0x0A])] @ rest"
    by simp
  from one two three show ?thesis by blast
qed

text \<open>
  C7. The selector always returns a pair, for every current time and every schedule. The
  function \<open>getNextPrayerTime\<close> reads the clock once and is otherwise the selector applied
  to that reading: it writes nothing, leaves the process status alone, and two calls that
  read the same time and are given the same schedule return the same pair, whatever else
  differs between their surroundings and states.
\<close>

theorem selector_pure:
  "(\<exists>name time. getNextPrayerTime_at now t = Inr (name, time)) \<and>
   getNextPrayerTime t e s =
     (getNextPrayerTime_at (clock e (nclock s)) t, s\<lparr>nclock := Suc (nclock s)\<rparr>) \<and>
   out (snd (getNextPrayerTime t e s)) = out s \<and>
   status (snd (getNextPrayerTime t e s)) = status s \<and>
   (clock e (nclock s) = clock e' (nclock s') \<longrightarrow>
      fst (getNextPrayerTime t e s) = fst (getNextPrayerTime t e' s'))"
  by (simp add: getNextPrayerTime_eq selector_returns)

text \<open>
  Two calls in different surroundings and states that both read 07:00 return Dhuhr.
\<close>

theorem selector_pure_witness:
  "clock (scriptedEnv [] [''07:00''] []) (nclock initial) =
     clock (scriptedEnv [Inr exampleTimings] [''12:00'', ''07:00''] [''next''])
       (nclock (initial\<lparr>nclock := 1, out := [prompt]\<rparr>)) \<and>
   fst (getNextPrayerTime exampleTimings (scriptedEnv [] [''07:00''] []) initial) =
     Inr (''Dhuhr'', ''12:15'') \<and>
   fst (getNextPrayerTime exampleTimings
          (scriptedEnv [Inr exampleTimings] [''12:00'', ''07:00''] [''next''])
          (initial\<lparr>nclock := 1, out := [prompt]\<rparr>)) = Inr (''Dhuhr'', ''12:15'')"
proof -
  let ?e = "scriptedEnv [] [''07:00''] []"
  let ?e' = "scriptedEnv [Inr exampleTimings] [''12:00'', ''07:00''] [''next'']"
  let ?s' = "initial\<lparr>nclock := 1, out := [prompt]\<rparr>"
  have same: "clock ?e (nclock initial) = clock ?e' (nclock ?s')" by simp
  have "fst (getNextPrayerTime exampleTimings ?e initial) =
        fst (getNextPrayerTime exampleTimings ?e' ?s')"
    using selector_pure [of "''07:00''" exampleTimings ?e initial ?e' ?s'] same by blast
  moreover have "fst (getNextPrayerTime exampleTimings ?e initial) = Inr (''Dhuhr'', ''12:15'')"
    by (simp add: getNextPrayerTime_eq getNextPrayerTime_at_scan prayersOf_def exampleTimings_def)
  ultimately show ?thesis using same by simp
qed

text \<open>
  C8. One pass of the command loop prints the prompt "Enter a command (or 'q' to quit): "
  and reads a command. On \<open>next\<close> with a successful fetch it prints "Next prayer: <name>,
  Time: <time>" for the selected event; on \<open>all\<close> with a successful fetch it renders the
  table with the header Prayer, Time and the six rows Fajr, Sunrise, Dhuhr, Asr, Maghrib,
  Isha, each with its time; on either with a failed fetch it logs "Failed to fetch prayer
  times: " followed by the error and prints nothing else; on \<open>q\<close> it exits with code 0,
  without fetching, and the loop makes no further pass; on any other command it prints
  "Invalid command" and does not fetch. Whenever the process is still running after a pass,
  the next pass prompts again.
\<close>

theorem command_dispatch:
  "(commands e (ncommand s) = ''next'' \<longrightarrow>
      (\<forall>t name tm. fetches e (nfetch s) = Inr t \<longrightarrow>
         getNextPrayerTime_at (clock e (nclock s)) t = Inr (name, tm) \<longrightarrow>
           out (handleUserInput_body e s) =
             out s @
             [Print ''Enter a command (or 'q' to quit): '',
              Print (''Next prayer: '' @ name @ '', Time: '' @ tm @ [CHR 0x0A])] \<and>
           status (handleUserInput_body e s) = status s)) \<and>
   (commands e (ncommand s) = ''all'' \<longrightarrow>
      (\<forall>t. fetches e (nfetch s) = Inr t \<longrightarrow>
           out (handleUserInput_body e s) =
             out s @
             [Print ''Enter a command (or 'q' to quit): '',
              Table [''Prayer'', ''Time'']
                [[''Fajr'', Fajr t], [''Sunrise'', Sunrise t], [''Dhuhr'', Dhuhr t],
                 [''Asr'', Asr t], [''Maghrib'', Maghrib t], [''Isha'', Isha t]]] \<and>
           status (handleUserInput_body e s) = status s)) \<and>
   (commands e (ncommand s) = ''next'' \<or> commands e (ncommand s) = ''all'' \<longrightarrow>
      (\<forall>err. fetches e (nfetch s) = Inl err \<longrightarrow>
           out (handleUserInput_body e s) =
             out s @
             [Print ''Enter a command (or 'q' to quit): '',
              LogLine (''Failed to fetch prayer times: '' @ err)] \<and>
           status (handleUserInput_body e s) = status s)) \<and>
   (commands e (ncommand s) = ''q'' \<longrightarrow>
      out (handleUserInput_body e s) = out s @ [Print ''Enter a command (or 'q' to quit): ''] \<and>
      status (handleUserInput_body e s) = Exited 0 \<and>
      nfetch (handleUserInput_body e s) = nfetch s \<and>
      handleUserInput n e (handleUserInput_body e s) = handleUserInput_body e s) \<and>
   (commands e (ncommand s) \<notin> {''next'', ''all'', ''q''} \<longrightarrow>
      out (handleUserInput_body e s) =
        out s @
        [Print ''Enter a command (or 'q' to quit): '',
         Print (''Invalid command'' @ [CHR 0x0A])] \<and>
      status (handleUserInput_body e s) = status s \<and>
      nfetch (handleUserInput_body e s) = nfetch s) \<and>
   (status s = Running \<longrightarrow> status (handleUserInput_body e s) = Running \<longrightarrow>
      (\<exists>rest. out (handleUserInput (Suc (Suc n)) e s) =
         out (handleUserInput_body e s) @ Print ''Enter a command (or 'q' to quit): '' # rest))"
proof (intro conjI impI allI)
  fix t name tm
  assume "commands e (ncommand s) = ''next''" "fetches e (nfetch s) = Inr t"
    "getNextPrayerTime_at (clock e (nclock s)) t = Inr (name, tm)"
  then have "out (handleUserInput_body e s) = out s @ [prompt, nextPrayerLine name tm] \<and>
      status (handleUserInput_body e s) = status s"
    by (rule input_next_ok)
  then show "out (handleUserInput_body e s) =
             out s @
             [Print ''Enter a command (or 'q' to quit): '',
              Print (''Next prayer: '' @ name @ '', Time: '' @ tm @ [CHR 0x0A])]"
    and "status (handleUserInput_body e s) = status s"
    unfolding prompt_def nextPrayerLine_def by blast+
next
  fix t
  assume "commands e (ncommand s) = ''all''" "fetches e (nfetch s) = Inr t"
  then have "out (handleUserInput_body e s) = out s @ [prompt, allTable t] \<and>
      status (handleUserInput_body e s) = status s"
    by (rule input_all_ok)
  then show "out (handleUserInput_body e s) =
             out s @
             [Print ''Enter a command (or 'q' to quit): '',
              Table [''Prayer'', ''Time'']
                [[''Fajr'', Fajr t], [''Sunrise'', Sunrise t], [''Dhuhr'', Dhuhr t],
                 [''Asr'', Asr t], [''Maghrib'', Maghrib t], [''Isha'', Isha t]]]"
    and "status (handleUserInput_body e s) = status s"
    unfolding prompt_def allTable_def by blast+
next
  fix err
  assume "commands e (ncommand s) = ''next'' \<or> commands e (ncommand s) = ''all''"
    "fetches e (nfetch s) = Inl err"
  then have "out (handleUserInput_body e s) = out s @ [prompt, fetchFailed err] \<and>
      status (handleUserInput_body e s) = status s"
    by (rule input_fetch_failed)
  then show "out (handleUserInput_body e s) =
             out s @
             [Print ''Enter a command (or 'q' to quit): '',
              LogLine (''Failed to fetch prayer times: '' @ err)]"
    and "status (handleUserInput_body e s) = status s"
    unfolding prompt_def fetchFailed_def by blast+
next
  assume q: "commands e (ncommand s) = ''q''"
  then have "out (handleUserInput_body e s) = out s @ [prompt] \<and>
      status (handleUserInput_body e s) = Exited 0 \<and>
      nfetch (handleUserInput_body e s) = nfetch s"
    by (rule input_q)
  then show "out (handleUserInput_body e s) = out s @ [Print ''Enter a command (or 'q' to quit): '']"
    and ex: "status (handleUserInput_body e s) = Exited 0"
    and "nfetch (handleUserInput_body e s) = nfetch s"
    unfolding prompt_def by blast+
  from ex show "handleUserInput n e (handleUserInput_body e s) = handleUserInput_body e s"
    by (simp add: input_stopped)
next
  assume "commands e (ncommand s) \<notin> {''next'', ''all'', ''q''}"
  then have "out (handleUserInput_body e s) =
        out s @ [prompt, Print (''Invalid command'' @ [CHR 0x0A])] \<and>
      status (handleUserInput_body e s) = status s \<and>
      nfetch (handleUserInput_body e s) = nfetch s"
    by (rule input_other)
  then show "out (handleUserInput_body e s) =
        out s @
        [Print ''Enter a command (or 'q' to quit): '',
         Print (''Invalid command'' @ [CHR 0x0A])]"
    and "status (handleUserInput_body e s) = status s"
    and "nfetch (handleUserInput_body e s) = nfetch s"
    unfolding prompt_def by blast+
next
  assume "status s = Running" "status (handleUserInput_body e s) = Running"
  then have "\<exists>rest. out (handleUserInput (Suc (Suc n)) e s) =
         out (handleUserInput_body e s) @ prompt # rest"
    by (rule input_continues)
  then show "\<exists>rest. out (handleUserInput (Suc (Suc n)) e s) =
         out (handleUserInput_body e s) @ Print ''Enter a command (or 'q' to quit): '' # rest"
    unfolding prompt_def .
qed

text \<open>
  The five kinds of pass on concrete inputs, and the prompt that follows an invalid
  command.
\<close>

theorem command_dispatch_witness:
  "out (handleUserInput_body (scriptedEnv [Inr exampleTimings] [''07:00''] [''next'']) initial) =
     [Print ''Enter a command (or 'q' to quit): '',
      Print (''Next prayer: Dhuhr, Time: 12:15'' @ [CHR 0x0A])] \<and>
   out (handleUserInput_body (scriptedEnv [Inr exampleTimings] [] [''all'']) initial) =
     [Print ''Enter a command (or 'q' to quit): '',
      Table [''Prayer'', ''Time'']
        [[''Fajr'', ''05:30''], [''Sunrise'', ''06:45''], [''Dhuhr'', ''12:15''],
         [''Asr'', ''15:40''], [''Maghrib'', ''18:20''], [''Isha'', ''19:45'']]] \<and>
   out (handleUserInput_body (scriptedEnv [] [] [''next'']) initial) =
     [Print ''Enter a command (or 'q' to quit): '',
      LogLine ''Failed to fetch prayer times: connection refused''] \<and>
   status (handleUserInput_body (scriptedEnv [] [] [''next'']) initial) = Running \<and>
   out (handleUserInput_body (scriptedEnv [] [] [''all'']) initial) =
     [Print ''Enter a command (or 'q' to quit): '',
      LogLine ''Failed to fetch prayer times: connection refused''] \<and>
   out (handleUserInput_body (scriptedEnv [] [] [''q'']) initial) =
     [Print ''Enter a command (or 'q' to quit): ''] \<and>
   status (handleUserInput_body (scriptedEnv [] [] [''q'']) initial) = Exited 0 \<and>
   handleUserInput 5 (scriptedEnv [] [] [''q''])
       (handleUserInput_body (scriptedEnv [] [] [''q'']) initial) =
     handleUserInput_body (scriptedEnv [] [] [''q'']) initial \<and>
   out (handleUserInput_body (scriptedEnv [] [] [''help'']) initial) =
     [Print ''Enter a command (or 'q' to quit): '',
      Print (''Invalid command'' @ [CHR 0x0A])] \<and>
   (\<exists>rest. out (handleUserInput 2 (scriptedEnv [] [] [''help'']) initial) =
      [Print ''Enter a command (or 'q' to quit): '',
       Print (''Invalid command'' @ [CHR 0x0A]),
       Print ''Enter a command (or 'q' to quit): ''] @ rest)"
proof -
  let ?n = "scriptedEnv [Inr exampleTimings] [''07:00''] [''next'']"
  let ?a = "scriptedEnv [Inr exampleTimings] [] [''all'']"
  let ?nf = "scriptedEnv [] [] [''next'']"
  let ?af = "scriptedEnv [] [] [''all'']"
  let ?q = "scriptedEnv [] [] [''q'']"
  let ?h = "scriptedEnv [] [] [''help'']"
  let ?p = "Print ''Enter a command (or 'q' to quit): ''"
  have sel: "getNextPrayerTime_at (clock ?n (nclock initial)) exampleTimings = Inr (''Dhuhr'', ''12:15'')"
    by (simp add: getNextPrayerTime_at_scan prayersOf_def exampleTimings_def)
  have c1: "out (handleUserInput_body ?n initial) =
      [?p, Print (''Next prayer: Dhuhr, Time: 12:15'' @ [CHR 0x0A])]"
    using command_dispatch [of ?n initial 0] sel by simp
  have "out (handleUserInput_body ?a initial) =
      [?p, Table [''Prayer'', ''Time'']
        [[''Fajr'', Fajr exampleTimings], [''Sunrise'', Sunrise exampleTimings],
         [''Dhuhr'', Dhuhr exampleTimings], [''Asr'', Asr exampleTimings],
         [''Maghrib'', Maghrib exampleTimings], [''Isha'', Isha exampleTimings]]]"
    using command_dispatch [of ?a initial 0] by simp
  then have c2: "out (handleUserInput_body ?a initial) =
      [?p, Table [''Prayer'', ''Time'']
        [[''Fajr'', ''05:30''], [''Sunrise'', ''06:45''], [''Dhuhr'', ''12:15''],
         [''Asr'', ''15:40''], [''Maghrib'', ''18:20''], [''Isha'', ''19:45'']]]"
    by (simp add: exampleTimings_def)
  have c3: "out (handleUserInput_body ?nf initial) =
      [?p, LogLine ''Failed to fetch prayer times: connection refused''] \<and>
      status (handleUserInput_body ?nf initial) = Running"
    using command_dispatch [of ?nf initial 0] by simp
  have c4: "out (handleUserInput_body ?af initial) =
      [?p, LogLine ''Failed to fetch prayer times: connection refused'']"
    using command_dispatch [of ?af initial 0] by simp
  have c5: "out (handleUserInput_body ?q initial) = [?p] \<and>
      status (handleUserInput_body ?q initial) = Exited 0 \<and>
      handleUserInput 5 ?q (handleUserInput_body ?q initial) = handleUserInput_body ?q initial"
    using command_dispatch [of ?q initial 5] by simp
  have c6: "out (handleUserInput_body ?h initial) = [?p, Print (''Invalid command'' @ [CHR 0x0A])] \<and>
      status (handleUserInput_body ?h initial) = Running"
    using command_dispatch [of ?h initial 0] by simp
  have "\<exists>rest. out (handleUserInput (Suc (Suc 0)) ?h initial) =
      out (handleUserInput_body ?h initial) @ ?p # rest"
    using command_dispatch [of ?h initial 0] c6 by simp
  then have c7: "\<exists>rest. out (handleUserInput 2 ?h initial) =
      [?p, Print (''Invalid command'' @ [CHR 0x0A]), ?p] @ rest"
    using c6 by (simp add: numeral_2_eq_2)
  from c1 c2 c3 c4 c5 c6 c7 show ?thesis by blast
qed

text \<open>
  C9. For every schedule and every current time the selector returns, without a panic, one
  of the six names Fajr, Sunrise, Dhuhr, Asr, Maghrib, Isha paired with the value of the
  field of that name. On the zero value it returns Fajr with the empty time. When the fetch
  at the start of \<open>main\<close> fails, \<open>main\<close> passes the zero value to the selector and
  announces Fajr with an empty time.
\<close>

theorem selector_total_six_names:
  "(\<exists>name time. getNextPrayerTime_at now t = Inr (name, time) \<and>
      (name, time) \<in> {(''Fajr'', Fajr t), (''Sunrise'', Sunrise t), (''Dhuhr'', Dhuhr t),
                        (''Asr'', Asr t), (''Maghrib'', Maghrib t), (''Isha'', Isha t)}) \<and>
   getNextPrayerTime_at now zeroTimings = Inr (''Fajr'', '''') \<and>
   (\<forall>err. fetches e (nfetch s) = Inl err \<longrightarrow>
      alerts (out (main_startup e s)) =
        alerts (out s) @
          [(''Adhan'', ''Adhan app is active!''), (''Adhan'', ''Next Prayer is : Fajr at: '')])"
proof (intro conjI allI impI)
  obtain p where "p \<in> set (prayersOf t)" and "getNextPrayerTime_at now t = Inr (Name p, Time p)"
    using selector_in_prayers by blast
  then show "\<exists>name time. getNextPrayerTime_at now t = Inr (name, time) \<and>
      (name, time) \<in> {(''Fajr'', Fajr t), (''Sunrise'', Sunrise t), (''Dhuhr'', Dhuhr t),
                        (''Asr'', Asr t), (''Maghrib'', Maghrib t), (''Isha'', Isha t)}"
    by (auto simp: prayersOf_def)
  show "getNextPrayerTime_at now zeroTimings = Inr (''Fajr'', '''')"
    by (rule selector_zero)
next
  fix err assume "fetches e (nfetch s) = Inl err"
  then show "alerts (out (main_startup e s)) =
        alerts (out s) @
          [(''Adhan'', ''Adhan app is active!''), (''Adhan'', ''Next Prayer is : Fajr at: '')]"
    by (rule main_startup_fetch_failed)
qed

text \<open>
  A start of \<open>main\<close> whose fetch is refused.
\<close>

theorem selector_total_six_names_witness:
  "fetches (scriptedEnv [] [''07:00''] []) (nfetch initial) = Inl ''connection refused'' \<and>
   alerts (out (main_startup (scriptedEnv [] [''07:00''] []) initial)) =
     [(''Adhan'', ''Adhan app is active!''), (''Adhan'', ''Next Prayer is : Fajr at: '')]"
proof -
  have "fetches (scriptedEnv [] [''07:00''] []) (nfetch initial) = Inl ''connection refused''"
    by simp
  then show ?thesis
    using selector_total_six_names [of "''07:00''" exampleTimings "scriptedEnv [] [''07:00''] []" initial]
    by simp
qed

text \<open>
  C10. In a pass of the poll loop on a schedule whose six times are strictly increasing,
  if the reading of the clock at the check equals the reading inside the selector, the
  alert sink is not called: the selected time is strictly greater than the reading when the
  scan found an event, and strictly less when it fell through to Fajr.
\<close>

theorem no_alert_without_rollover:
  assumes "strictlyIncreasing t"
    and "fetches e (nfetch s) = Inr t"
    and "clock e (Suc (nclock s)) = clock e (nclock s)"
  shows "alerts (out (checkPrayerTimes_body e s)) = alerts (out s) \<and>
         (\<exists>name tm. getNextPrayerTime_at (clock e (nclock s)) t = Inr (name, tm) \<and>
            (case scanPrayers (clock e (nclock s)) (prayersOf t) of
               Some p \<Rightarrow> clock e (nclock s) < tm
             | None \<Rightarrow> tm < clock e (nclock s)))"
proof -
  obtain name tm where sel: "getNextPrayerTime_at (clock e (nclock s)) t = Inr (name, tm)"
    using selector_returns by blast
  have off: "case scanPrayers (clock e (nclock s)) (prayersOf t) of
               Some p \<Rightarrow> clock e (nclock s) < tm
             | None \<Rightarrow> tm < clock e (nclock s)"
    using assms(1) sel by (rule selected_time_off_now)
  then have "tm \<noteq> clock e (nclock s)"
    by (auto split: option.splits)
  then have "alerts (out (checkPrayerTimes_body e s)) = alerts (out s)"
    using alerts_body_ok [OF assms(2) sel] assms(3) by simp
  with sel off show ?thesis by blast
qed

text \<open>
  On the example schedule with both readings at 12:15 (Asr is selected), and with both
  readings at 19:45 (the scan falls through to Fajr).
\<close>

theorem no_alert_without_rollover_witness:
  "strictlyIncreasing exampleTimings \<and>
   alerts (out (checkPrayerTimes_body
             (scriptedEnv [Inr exampleTimings] [''12:15'', ''12:15''] []) initial)) = [] \<and>
   alerts (out (checkPrayerTimes_body
             (scriptedEnv [Inr exampleTimings] [''19:45'', ''19:45''] []) initial)) = []"
proof -
  let ?e1 = "scriptedEnv [Inr exampleTimings] [''12:15'', ''12:15''] []"
  let ?e2 = "scriptedEnv [Inr exampleTimings] [''19:45'', ''19:45''] []"
  have f1: "fetches ?e1 (nfetch initial) = Inr exampleTimings"
    and c1: "clock ?e1 (Suc (nclock initial)) = clock ?e1 (nclock initial)" by simp_all
  have f2: "fetches ?e2 (nfetch initial) = Inr exampleTimings"
    and c2: "clock ?e2 (Suc (nclock initial)) = clock ?e2 (nclock initial)" by simp_all
  show ?thesis
    using no_alert_without_rollover [OF strictlyIncreasing_example f1 c1]
      no_alert_without_rollover [OF strictlyIncreasing_example f2 c2]
      strictlyIncreasing_example
    by simp
qed

end
